theory Spec2Isabelle
  imports Main "HOL-Library.Word" "HOL-Library.AList" "HOL-Library.Sublist"
begin

unbundle bit_operations_syntax

section \<open>Data model of the relay server (server.ts)\<close>

text \<open>
  A websocket is identified by a handle; a channel by the string taken from the query
  parameter. JavaScript's \<open>Map\<close> and \<open>Set\<close> iterate in insertion order, so the three
  module-level registries are association lists (\<open>AList.update\<close> keeps the position of an
  existing key and appends a new one, as \<open>Map.set\<close> does) and a client set is a list
  without repetition. Every call the server makes on a socket (\<open>ws.send\<close>, \<open>ws.close\<close>)
  and on the upstream client or session object is recorded in a log, in call order.
\<close>

type_synonym channel_id = string
type_synonym socket = nat
type_synonym byte = "8 word"
type_synonym int16 = "16 word"

datatype ready_state = CONNECTING | OPEN | CLOSING | CLOSED

text \<open>The \<open>Session\<close> object returned by \<open>createStreamSession\<close>: the id it was created
  for and a serial number telling apart two objects created for the same id.\<close>

datatype session = Session channel_id nat

datatype ws_data =
    ErrorEvent string string
  | SessionReady string bool
  | SessionEvent string string
  | StreamComplete
  | AudioChunk "int16 list"

datatype ws_call = Send ws_data | Close

datatype upcall =
    CreateStreamSession channel_id
  | InitiateSession channel_id socket
  | SetupPromptStart session
  | SetupSystemPrompt session "string option"
  | SetupStartAudio session
  | StreamAudio session "byte list"
  | EndAudioContent session
  | EndPrompt session
  | SessionClose session
  | CloseSession channel_id

datatype hs_step = PromptStart | SystemPrompt | StartAudio

text \<open>How \<open>bedrockClient.closeSession\<close> behaves for a session id. The client class is
  not part of the sources at hand; server.ts both wraps the call in \<open>try/catch\<close> and
  collects its result as a promise, so all three behaviours are kept.\<close>

datatype close_behaviour = CloseResolves | CloseRejects | CloseThrows

record server =
  channelStreams :: "(channel_id \<times> session) list"
  channelClients :: "(channel_id \<times> socket list) list"
  clientChannels :: "socket \<rightharpoonup> channel_id"
  awaiting :: "socket \<rightharpoonup> (channel_id \<times> session \<times> hs_step)"
  readyState :: "socket \<Rightarrow> ready_state"
  wsCalls :: "socket \<Rightarrow> ws_call list"
  upstream :: "upcall list"
  consoleErrors :: "string list"
  sessionsCreated :: nat
  activeSessions :: "(string \<times> int) list"
  closeBehaviour :: "string \<Rightarrow> close_behaviour"
  browserOn :: bool
  vonageOn :: bool
  clock :: int

definition init_server :: server where
  "init_server = \<lparr>channelStreams = [], channelClients = [], clientChannels = Map.empty,
     awaiting = Map.empty, readyState = (\<lambda>_. OPEN), wsCalls = (\<lambda>_. []), upstream = [],
     consoleErrors = [], sessionsCreated = 0, activeSessions = [],
     closeBehaviour = (\<lambda>_. CloseResolves), browserOn = True, vonageOn = False, clock = 0\<rparr>"

subsection \<open>Sets of sockets, socket calls, upstream calls\<close>

definition set_add :: "'a \<Rightarrow> 'a list \<Rightarrow> 'a list" where
  "set_add x xs = (if x \<in> set xs then xs else xs @ [x])"

definition set_delete :: "'a \<Rightarrow> 'a list \<Rightarrow> 'a list" where
  "set_delete x xs = removeAll x xs"

definition ws_send :: "socket \<Rightarrow> ws_data \<Rightarrow> server \<Rightarrow> server" where
  "ws_send ws m s = s\<lparr>wsCalls := (wsCalls s)(ws := wsCalls s ws @ [Send m])\<rparr>"

definition ws_close :: "socket \<Rightarrow> server \<Rightarrow> server" where
  "ws_close ws s = s\<lparr>wsCalls := (wsCalls s)(ws := wsCalls s ws @ [Close])\<rparr>"

definition sendError :: "socket \<Rightarrow> string \<Rightarrow> string \<Rightarrow> server \<Rightarrow> server" where
  "sendError ws message details s = ws_send ws (ErrorEvent message details) s"

definition call :: "upcall \<Rightarrow> server \<Rightarrow> server" where
  "call c s = s\<lparr>upstream := upstream s @ [c]\<rparr>"

definition console_error :: "string \<Rightarrow> server \<Rightarrow> server" where
  "console_error line s = s\<lparr>consoleErrors := consoleErrors s @ [line]\<rparr>"

subsection \<open>The upstream client, as far as server.ts uses it\<close>

text \<open>Modelled from the spec: the class \<open>NovaSonicBidirectionalStreamClient\<close> (client.ts)
  is missing. Its table of active sessions maps a session id to the time of its last
  activity; \<open>createStreamSession\<close> enters the id, a close that succeeds removes it.\<close>

definition isSessionActive :: "server \<Rightarrow> string \<Rightarrow> bool" where
  "isSessionActive s sessionId = (map_of (activeSessions s) sessionId \<noteq> None)"


definition getLastActivityTime :: "server \<Rightarrow> string \<Rightarrow> int" where
  "getLastActivityTime s sessionId =
     (case map_of (activeSessions s) sessionId of None \<Rightarrow> 0 | Some t \<Rightarrow> t)"

definition createStreamSession :: "channel_id \<Rightarrow> server \<Rightarrow> session \<times> server" where
  "createStreamSession channelId s =
     (Session channelId (sessionsCreated s),
      (call (CreateStreamSession channelId) s)
        \<lparr>sessionsCreated := Suc (sessionsCreated s),
         activeSessions := AList.update channelId (clock s) (activeSessions s)\<rparr>)"

text \<open>The call is always recorded; the session leaves the table unless the call throws.\<close>

definition closeSession :: "string \<Rightarrow> server \<Rightarrow> server" where
  "closeSession sessionId s =
     (let s' = call (CloseSession sessionId) s in
      if closeBehaviour s sessionId = CloseThrows then s'
      else s'\<lparr>activeSessions := AList.delete sessionId (activeSessions s')\<rparr>)"

subsection \<open>Fan-out and re-framing (setUpEventHandlersForChannel)\<close>

definition clients_of :: "server \<Rightarrow> channel_id \<Rightarrow> socket list" where
  "clients_of s channelId =
     (case map_of (channelClients s) channelId of None \<Rightarrow> [] | Some clients \<Rightarrow> clients)"

fun broadcast :: "socket list \<Rightarrow> ws_data \<Rightarrow> server \<Rightarrow> server" where
  "broadcast [] message s = s"
| "broadcast (client # clients) message s =
     broadcast clients message
       (if readyState s client = OPEN then ws_send client message s else s)"

definition CHUNK_SIZE_BYTES :: nat where
  "CHUNK_SIZE_BYTES = 640"

definition SAMPLES_PER_CHUNK :: nat where
  "SAMPLES_PER_CHUNK = CHUNK_SIZE_BYTES div 2"

text \<open>\<open>new Int16Array(buffer.buffer, buffer.byteOffset, buffer.length / 2)\<close>: a view of
  the bytes as little-endian 16-bit samples; the fractional length of an odd buffer is
  truncated. \<open>int16_bytes\<close> gives back the bytes of a typed array, which is what
  \<open>client.send(chunk)\<close> puts on the wire.\<close>

fun int16_view :: "byte list \<Rightarrow> int16 list" where
  "int16_view (lo # hi # bs) = (push_bit 8 (ucast hi) OR ucast lo) # int16_view bs"
| "int16_view _ = []"

fun int16_bytes :: "int16 list \<Rightarrow> byte list" where
  "int16_bytes [] = []"
| "int16_bytes (w # ws) = ucast w # ucast (drop_bit 8 w) # int16_bytes ws"

definition slice :: "'a list \<Rightarrow> nat \<Rightarrow> nat \<Rightarrow> 'a list" where
  "slice xs start end = take (end - start) (drop start xs)"

function audio_loop :: "socket list \<Rightarrow> int16 list \<Rightarrow> nat \<Rightarrow> server \<Rightarrow> server" where
  "audio_loop clients pcmSamples offset s =
     (if offset + SAMPLES_PER_CHUNK \<le> length pcmSamples
      then audio_loop clients pcmSamples (offset + SAMPLES_PER_CHUNK)
             (broadcast clients
                (AudioChunk (slice pcmSamples offset (offset + SAMPLES_PER_CHUNK))) s)
      else s)"
  by pat_completeness auto
termination
  by (relation "measure (\<lambda>(clients, pcmSamples, offset, s). length pcmSamples - offset)")
     (auto simp: SAMPLES_PER_CHUNK_def CHUNK_SIZE_BYTES_def)

declare audio_loop.simps [simp del]

text \<open>The framing rule in the words of the specification: consecutive frames of \<open>n\<close>
  elements, as many as fit; what is left after the last whole frame is in no frame.\<close>

definition frames :: "nat \<Rightarrow> 'a list \<Rightarrow> 'a list list" where
  "frames n xs = map (\<lambda>k. take n (drop (k * n) xs)) [0..<length xs div n]"

datatype session_event =
    Event string string
  | StreamCompleteEvent
  | AudioOutput "byte list"

definition forwarded_events :: "string list" where
  "forwarded_events =
     [''contentStart'', ''textOutput'', ''error'', ''toolUse'', ''toolResult'', ''contentEnd'']"

text \<open>What the handlers registered for the session of \<open>channelId\<close> do with one upstream
  event. \<open>AudioOutput\<close> carries the buffer decoded from \<open>data["content"]\<close>. An event name
  without a registered handler is ignored; the \<open>error\<close> event is also written to
  \<open>console.error\<close>.\<close>

definition onEvent :: "channel_id \<Rightarrow> session_event \<Rightarrow> server \<Rightarrow> server" where
  "onEvent channelId ev s =
     (case ev of
        Event eventName data \<Rightarrow>
          if eventName \<in> set forwarded_events
          then broadcast (clients_of s channelId) (SessionEvent eventName data)
                 (if eventName = ''error'' then console_error eventName s else s)
          else s
      | StreamCompleteEvent \<Rightarrow> broadcast (clients_of s channelId) StreamComplete s
      | AudioOutput buffer \<Rightarrow> audio_loop (clients_of s channelId) (int16_view buffer) 0 s)"

subsection \<open>Joining a channel (initializeOrJoinChannel)\<close>

text \<open>The system prompt passed by \<open>initializeOrJoinChannel\<close> (the literal of the source,
  shortened to its first sentence: nothing below looks into it).\<close>

definition systemPrompt :: string where
  "systemPrompt = ''You are Telly, an AI assistant having a voice conversation.''"

text \<open>The \<open>catch\<close> block of \<open>initializeOrJoinChannel\<close>.\<close>

definition join_failed :: "socket \<Rightarrow> string \<Rightarrow> server \<Rightarrow> server" where
  "join_failed ws err s =
     ws_close ws (sendError ws ''Failed to initialize or join channel'' err s)"

text \<open>The tail of the \<open>try\<close> block: add the client to the channel and notify it. When the
  channel has no client set, \<open>clients.add\<close> on \<open>undefined\<close> throws into the \<open>catch\<close>.\<close>

definition attach :: "socket \<Rightarrow> channel_id \<Rightarrow> bool \<Rightarrow> server \<Rightarrow> server" where
  "attach ws channelId isNewChannel s =
     (case map_of (channelClients s) channelId of
        None \<Rightarrow> join_failed ws ''TypeError: Cannot read properties of undefined'' s
      | Some clients \<Rightarrow>
          ws_send ws (SessionReady (''Connected to channel '' @ channelId) isNewChannel)
            (s\<lparr>channelClients := AList.update channelId (set_add ws clients) (channelClients s),
               clientChannels := (clientChannels s)(ws \<mapsto> channelId)\<rparr>))"

text \<open>The synchronous prefix of \<open>initializeOrJoinChannel\<close>, up to its first \<open>await\<close>. An
  existing channel is joined at once. Otherwise the session is created and entered in
  both registries before the first handshake step is awaited.\<close>

definition initializeOrJoinChannel :: "socket \<Rightarrow> channel_id \<Rightarrow> server \<Rightarrow> server" where
  "initializeOrJoinChannel ws channelId s =
     (case map_of (channelStreams s) channelId of
        Some session \<Rightarrow> attach ws channelId False s
      | None \<Rightarrow>
          (let (session, s1) = createStreamSession channelId s;
               s2 = call (InitiateSession channelId ws) s1;
               s3 = s2\<lparr>channelStreams := AList.update channelId session (channelStreams s2),
                       channelClients := AList.update channelId [] (channelClients s2)\<rparr>;
               s4 = call (SetupPromptStart session) s3
           in s4\<lparr>awaiting := (awaiting s4)(ws \<mapsto> (channelId, session, PromptStart))\<rparr>))"

text \<open>The awaited handshake step of \<open>ws\<close> resolves: the function goes on to the next
  step, and after the last one attaches the client with \<open>isNewChannel = true\<close>.\<close>

definition handshake_resolved :: "socket \<Rightarrow> server \<Rightarrow> server" where
  "handshake_resolved ws s =
     (case awaiting s ws of
        None \<Rightarrow> s
      | Some (channelId, session, step) \<Rightarrow>
          (case step of
             PromptStart \<Rightarrow>
               (call (SetupSystemPrompt session (Some systemPrompt)) s)
                 \<lparr>awaiting := (awaiting s)(ws \<mapsto> (channelId, session, SystemPrompt))\<rparr>
           | SystemPrompt \<Rightarrow>
               (call (SetupStartAudio session) s)
                 \<lparr>awaiting := (awaiting s)(ws \<mapsto> (channelId, session, StartAudio))\<rparr>
           | StartAudio \<Rightarrow>
               attach ws channelId True (s\<lparr>awaiting := (awaiting s)(ws := None)\<rparr>)))"

text \<open>The awaited handshake step of \<open>ws\<close> is rejected with \<open>err\<close>.\<close>

definition handshake_rejected :: "socket \<Rightarrow> string \<Rightarrow> server \<Rightarrow> server" where
  "handshake_rejected ws err s =
     (case awaiting s ws of
        None \<Rightarrow> s
      | Some pending \<Rightarrow> join_failed ws err (s\<lparr>awaiting := (awaiting s)(ws := None)\<rparr>))"

subsection \<open>Inbound messages (handleMessage)\<close>

text \<open>An inbound message with the results of the parsing the handlers do on it:
  \<open>json_audio\<close> is \<open>Buffer.from(JSON.parse(msg).event.audioInput.content, "base64")\<close>,
  \<open>json_type\<close> and \<open>json_data\<close> are the \<open>type\<close> and \<open>data\<close> properties of
  \<open>JSON.parse(msg)\<close>; each is \<open>None\<close> where the expression throws or is undefined.\<close>

record inbound =
  raw :: "byte list"
  json_audio :: "byte list option"
  json_type :: "string option"
  json_data :: "string option"

text \<open>\<open>rejects\<close> tells which awaited upstream calls are rejected. Each adapter and
  \<open>tryProcessNovaSonicMessage\<close> swallow every exception in a \<open>catch\<close> of their own, so the
  outer \<open>catch\<close> of handleMessage ("Error processing message") has no path leading to it.\<close>

definition browser_tryProcessAudioInput :: "inbound \<Rightarrow> session \<Rightarrow> server \<Rightarrow> server" where
  "browser_tryProcessAudioInput msg session s =
     (if \<not> browserOn s then s
      else case json_audio msg of
             None \<Rightarrow> s
           | Some audioBuffer \<Rightarrow> call (StreamAudio session audioBuffer) s)"

definition vonage_tryProcessAudioInput :: "inbound \<Rightarrow> session \<Rightarrow> server \<Rightarrow> server" where
  "vonage_tryProcessAudioInput msg session s =
     (if \<not> vonageOn s then s else call (StreamAudio session (raw msg)) s)"

definition tryProcessNovaSonicMessage ::
  "(upcall \<Rightarrow> bool) \<Rightarrow> inbound \<Rightarrow> session \<Rightarrow> server \<Rightarrow> server" where
  "tryProcessNovaSonicMessage rejects msg session s =
     (case json_type msg of
        None \<Rightarrow> s
      | Some t \<Rightarrow>
          if t = ''promptStart'' then call (SetupPromptStart session) s
          else if t = ''systemPrompt'' then call (SetupSystemPrompt session (json_data msg)) s
          else if t = ''audioStart'' then call (SetupStartAudio session) s
          else if t = ''stopAudio'' then
            (if rejects (EndAudioContent session) then call (EndAudioContent session) s
             else call (EndPrompt session) (call (EndAudioContent session) s))
          else s)"

definition handleMessage :: "(upcall \<Rightarrow> bool) \<Rightarrow> socket \<Rightarrow> inbound \<Rightarrow> server \<Rightarrow> server" where
  "handleMessage rejects ws msg s =
     (case clientChannels s ws of
        None \<Rightarrow> sendError ws ''Channel not found'' ''No active channel for this connection'' s
      | Some channelId \<Rightarrow>
          if channelId = []
          then sendError ws ''Channel not found'' ''No active channel for this connection'' s
          else
            (case map_of (channelStreams s) channelId of
               None \<Rightarrow>
                 sendError ws ''Session not found'' ''No active session for this channel'' s
             | Some session \<Rightarrow>
                 tryProcessNovaSonicMessage rejects msg session
                   (vonage_tryProcessAudioInput msg session
                      (browser_tryProcessAudioInput msg session s))))"

subsection \<open>Disconnecting (handleClose)\<close>

text \<open>How an awaited call ends: it resolves or is rejected after so many milliseconds,
  or it never settles.\<close>

datatype outcome = Resolves nat | Rejects nat | Hangs

text \<open>An \<open>async\<close> block awaiting its calls one after the other, started at time \<open>t\<close>:
  the calls it makes, each with the time it is made at, and how the block itself ends
  (with the time counted from the start of the clock).\<close>

fun run_sequence :: "nat \<Rightarrow> (upcall \<times> outcome) list \<Rightarrow> (nat \<times> upcall) list \<times> outcome" where
  "run_sequence t [] = ([], Resolves t)"
| "run_sequence t ((c, Resolves d) # rest) =
     (let (calls, r) = run_sequence (t + d) rest in ((t, c) # calls, r))"
| "run_sequence t ((c, Rejects d) # rest) = ([(t, c)], Rejects (t + d))"
| "run_sequence t ((c, Hangs) # rest) = ([(t, c)], Hangs)"

definition CLEANUP_TIMEOUT_MS :: nat where
  "CLEANUP_TIMEOUT_MS = 3000"

datatype race = GracefulDone | GracefulThrew | TimedOut

text \<open>\<open>Promise.race\<close> of the block against a timer that rejects after \<open>bound\<close>
  milliseconds. A block that settles in the very millisecond of the timer loses.\<close>

definition promise_race :: "outcome \<Rightarrow> nat \<Rightarrow> race" where
  "promise_race out bound =
     (case out of
        Resolves t \<Rightarrow> if t < bound then GracefulDone else TimedOut
      | Rejects t \<Rightarrow> if t < bound then GracefulThrew else TimedOut
      | Hangs \<Rightarrow> TimedOut)"

definition calls_made :: "upcall list \<Rightarrow> server \<Rightarrow> server" where
  "calls_made cs s = s\<lparr>upstream := upstream s @ cs\<rparr>"

text \<open>The inner \<open>try/catch\<close> of handleClose around \<open>bedrockClient.closeSession\<close>.\<close>

definition force_close :: "channel_id \<Rightarrow> server \<Rightarrow> server" where
  "force_close channelId s =
     (let s' = closeSession channelId s in
      if closeBehaviour s channelId = CloseThrows
      then console_error (''Failed to force close session for channel '' @ channelId) s'
      else s')"

text \<open>The graceful sequence raced against the timer. The block is not cancelled when the
  timer wins: the calls it makes from then on come after the forced close. A session
  whose \<open>close()\<close> has resolved is no longer active (modelled from the spec).\<close>

definition teardown :: "outcome \<times> outcome \<times> outcome \<Rightarrow> channel_id \<Rightarrow> session \<Rightarrow> server \<Rightarrow> server" where
  "teardown outs channelId session s =
     (case outs of (o1, o2, o3) \<Rightarrow>
        (let (calls, out) = run_sequence 0
               [(EndAudioContent session, o1), (EndPrompt session, o2), (SessionClose session, o3)]
         in case promise_race out CLEANUP_TIMEOUT_MS of
              GracefulDone \<Rightarrow>
                (let s' = calls_made (map snd calls) s
                 in s'\<lparr>activeSessions := AList.delete channelId (activeSessions s')\<rparr>)
            | GracefulThrew \<Rightarrow>
                force_close channelId
                  (console_error (''Error cleaning up channel '' @ channelId)
                     (calls_made (map snd calls) s))
            | TimedOut \<Rightarrow>
                calls_made (map snd (filter (\<lambda>(t, c). \<not> t < CLEANUP_TIMEOUT_MS) calls))
                  (force_close channelId
                     (console_error (''Error cleaning up channel '' @ channelId)
                        (calls_made (map snd (filter (\<lambda>(t, c). t < CLEANUP_TIMEOUT_MS) calls)) s)))))"

definition handleClose :: "outcome \<times> outcome \<times> outcome \<Rightarrow> socket \<Rightarrow> server \<Rightarrow> server" where
  "handleClose outs ws s =
     (case clientChannels s ws of
        None \<Rightarrow> s
      | Some channelId \<Rightarrow>
          if channelId = [] then s
          else
            (case map_of (channelClients s) channelId of
               None \<Rightarrow> s\<lparr>clientChannels := (clientChannels s)(ws := None)\<rparr>
             | Some clients \<Rightarrow>
                 (let clients' = set_delete ws clients;
                      s1 = s\<lparr>channelClients := AList.update channelId clients' (channelClients s)\<rparr>
                  in if length clients' = 0
                     then
                       (let s2 = (case map_of (channelStreams s1) channelId of
                                    None \<Rightarrow> s1
                                  | Some session \<Rightarrow>
                                      if isSessionActive s1 channelId
                                      then teardown outs channelId session s1 else s1)
                        in s2\<lparr>channelStreams := AList.delete channelId (channelStreams s2),
                               channelClients := AList.delete channelId (channelClients s2),
                               clientChannels := (clientChannels s2)(ws := None)\<rparr>)
                     else s1\<lparr>clientChannels := (clientChannels s1)(ws := None)\<rparr>)))"

subsection \<open>The session reaper and the channel listing\<close>

definition fiveMinsInMs :: int where
  "fiveMinsInMs = 5 * 60 * 1000"


fun reaper_loop :: "int \<Rightarrow> string list \<Rightarrow> server \<Rightarrow> server" where
  "reaper_loop now [] s = s"
| "reaper_loop now (sessionId # rest) s =
     reaper_loop now rest
       (if now - getLastActivityTime s sessionId > fiveMinsInMs
        then (let s' = closeSession sessionId s in
              if closeBehaviour s sessionId = CloseThrows
              then console_error (''Error force closing inactive session '' @ sessionId) s'
              else s')
        else s)"


record channel_info =
  id' :: channel_id
  clientCount :: nat
  active :: bool


subsection \<open>Shutdown (the SIGINT handler)\<close>

fun close_open_clients :: "socket list \<Rightarrow> server \<Rightarrow> server" where
  "close_open_clients [] s = s"
| "close_open_clients (ws # rest) s =
     close_open_clients rest (if readyState s ws = OPEN then ws_close ws s else s)"







subsection \<open>Schedules\<close>

text \<open>The handlers run one at a time; an \<open>await\<close> ends a turn. A schedule is the order
  in which connections arrive, awaited handshake steps settle, sockets close, messages
  arrive and the upstream emits events.\<close>

datatype event =
    Connect socket channel_id
  | Resolve socket
  | Reject socket string
  | Disconnect socket "outcome \<times> outcome \<times> outcome"
  | Inbound socket inbound
  | Upstream channel_id session_event

fun step :: "event \<Rightarrow> server \<Rightarrow> server" where
  "step (Connect ws channelId) s = initializeOrJoinChannel ws channelId s"
| "step (Resolve ws) s = handshake_resolved ws s"
| "step (Reject ws err) s = handshake_rejected ws err s"
| "step (Disconnect ws outs) s = handleClose outs ws s"
| "step (Inbound ws msg) s = handleMessage (\<lambda>c. False) ws msg s"
| "step (Upstream channelId ev) s = onEvent channelId ev s"

definition run :: "event list \<Rightarrow> server \<Rightarrow> server" where
  "run evs s = fold step evs s"


section \<open>The tool registry and the injection helper (tools module)\<close>



datatype tool_error = Error string | SyntaxError | TypeError | FetchError string














subsection \<open>The handlers\<close>















section \<open>Notions used in the statements, and example states\<close>

text \<open>The graceful sequence completes before the timer: all three calls resolve and
  their durations add up to less than the bound.\<close>

definition graceful_ok :: "outcome \<times> outcome \<times> outcome \<Rightarrow> bool" where
  "graceful_ok outs = (case outs of
      (Resolves d1, Resolves d2, Resolves d3) \<Rightarrow> d1 + d2 + d3 < CLEANUP_TIMEOUT_MS
    | _ \<Rightarrow> False)"












text \<open>The \<open>sessionReady\<close> notification for a channel id.\<close>

definition sessionReady :: "channel_id \<Rightarrow> bool \<Rightarrow> ws_call" where
  "sessionReady channelId isNewChannel =
     Send (SessionReady (''Connected to channel '' @ channelId) isNewChannel)"






section \<open>Verification\<close>

subsection \<open>Samples and bytes\<close>


lemma lo_byte: "ucast (push_bit 8 (ucast (hi::byte)) OR ucast (lo::byte) :: int16) = lo"
  by (rule bit_word_eqI) (auto simp: bit_simps)

lemma hi_byte: "ucast (drop_bit 8 (push_bit 8 (ucast (hi::byte)) OR ucast (lo::byte) :: int16)) = hi"
  by (rule bit_word_eqI) (auto simp: bit_simps dest: bit_imp_le_length)

lemma int16_roundtrip: "int16_bytes (int16_view bs) = take (2 * (length bs div 2)) bs"
  by (induction bs rule: int16_view.induct) (simp_all add: lo_byte hi_byte del: drop_bit_or)

lemma length_int16_view: "length (int16_view bs) = length bs div 2"
  by (induction bs rule: int16_view.induct) simp_all

lemma length_int16_bytes: "length (int16_bytes ws) = 2 * length ws"
  by (induction ws) simp_all

lemma int16_view_take: "int16_view (take (2 * n) bs) = take n (int16_view bs)"
proof (induction n arbitrary: bs)
  case 0
  show ?case by simp
next
  case (Suc n)
  show ?case
  proof (cases bs)
    case Nil
    then show ?thesis by simp
  next
    case (Cons lo bs')
    then show ?thesis using Suc by (cases bs') simp_all
  qed
qed

lemma int16_view_drop: "int16_view (drop (2 * n) bs) = drop n (int16_view bs)"
proof (induction n arbitrary: bs)
  case 0
  show ?case by simp
next
  case (Suc n)
  show ?case
  proof (cases bs)
    case Nil
    then show ?thesis by simp
  next
    case (Cons lo bs')
    then show ?thesis using Suc by (cases bs') simp_all
  qed
qed

lemma readyState_ws_send [simp]: "readyState (ws_send w m s) = readyState s"
  by (simp add: ws_send_def)

lemma readyState_broadcast [simp]: "readyState (broadcast cs m s) = readyState s"
  by (induction cs arbitrary: s) simp_all

lemma wsCalls_broadcast:
  "wsCalls (broadcast cs m s) w =
     wsCalls s w @ (if readyState s w = OPEN then replicate (count_list cs w) (Send m) else [])"
proof (induction cs arbitrary: s)
  case Nil
  then show ?case by simp
next
  case (Cons c cs)
  show ?case
    by (simp add: Cons.IH ws_send_def replicate_app_Cons_same)
qed

lemma audio_loop_fold:
  "audio_loop cs pcm offset s =
     fold (\<lambda>f. broadcast cs (AudioChunk f))
       (map (\<lambda>k. take SAMPLES_PER_CHUNK (drop (offset + k * SAMPLES_PER_CHUNK) pcm))
            [0..<(length pcm - offset) div SAMPLES_PER_CHUNK]) s"
proof (induction cs pcm offset s rule: audio_loop.induct)
  case (1 cs pcm offset s)
  have pos: "0 < SAMPLES_PER_CHUNK" by (simp add: SAMPLES_PER_CHUNK_def CHUNK_SIZE_BYTES_def)
  show ?case
  proof (cases "offset + SAMPLES_PER_CHUNK \<le> length pcm")
    case True
    then have d: "(length pcm - offset) div SAMPLES_PER_CHUNK
        = Suc ((length pcm - (offset + SAMPLES_PER_CHUNK)) div SAMPLES_PER_CHUNK)"
      using pos le_div_geq[of SAMPLES_PER_CHUNK "length pcm - offset"] by simp
    have u: "\<And>n. [0..<Suc n] = 0 # map Suc [0..<n]"
      by (simp add: upt_conv_Cons map_Suc_upt del: upt_Suc)
    show ?thesis
      apply (subst audio_loop.simps)
      apply (simp only: True if_True "1.IH"[OF True] d u)
      apply (simp add: slice_def o_def add.assoc add.commute add.left_commute)
      done
  next
    case False
    then have "(length pcm - offset) div SAMPLES_PER_CHUNK = 0"
      using pos by (simp add: div_eq_0_iff)
    with False show ?thesis by (subst audio_loop.simps) simp
  qed
qed


lemma readyState_fold_broadcast [simp]:
  "readyState (fold (\<lambda>f. broadcast cs (g f)) fs s) = readyState s"
  by (induction fs arbitrary: s) simp_all

lemma wsCalls_fold_broadcast:
  "wsCalls (fold (\<lambda>f. broadcast cs (g f)) fs s) w =
     wsCalls s w @ (if readyState s w = OPEN
                    then concat (map (\<lambda>f. replicate (count_list cs w) (Send (g f))) fs) else [])"
  by (induction fs arbitrary: s) (simp_all add: wsCalls_broadcast)

lemma frames_samples:
  "map (\<lambda>k. take SAMPLES_PER_CHUNK (drop (0 + k * SAMPLES_PER_CHUNK) pcm))
            [0..<(length pcm - 0) div SAMPLES_PER_CHUNK] = frames SAMPLES_PER_CHUNK pcm"
  by (simp add: frames_def)

lemma frames_bytes:
  "map int16_bytes (frames SAMPLES_PER_CHUNK (int16_view buffer)) = frames CHUNK_SIZE_BYTES buffer"
proof -
  have c: "CHUNK_SIZE_BYTES = 2 * SAMPLES_PER_CHUNK"
    by (simp add: SAMPLES_PER_CHUNK_def CHUNK_SIZE_BYTES_def)
  have n: "length buffer div 2 div SAMPLES_PER_CHUNK = length buffer div CHUNK_SIZE_BYTES"
    by (simp add: c div_mult2_eq)
  have "int16_bytes (take SAMPLES_PER_CHUNK (drop (k * SAMPLES_PER_CHUNK) (int16_view buffer)))
        = take CHUNK_SIZE_BYTES (drop (k * CHUNK_SIZE_BYTES) buffer)"
    if "k < length buffer div CHUNK_SIZE_BYTES" for k
  proof -
    have le: "k * CHUNK_SIZE_BYTES + CHUNK_SIZE_BYTES \<le> length buffer"
    proof -
      have "Suc k * CHUNK_SIZE_BYTES \<le> (length buffer div CHUNK_SIZE_BYTES) * CHUNK_SIZE_BYTES"
        using that by (intro mult_le_mono1) simp
      also have "\<dots> \<le> length buffer" by simp
      finally show ?thesis by simp
    qed
    have "take SAMPLES_PER_CHUNK (drop (k * SAMPLES_PER_CHUNK) (int16_view buffer))
          = int16_view (take (2 * SAMPLES_PER_CHUNK) (drop (2 * (k * SAMPLES_PER_CHUNK)) buffer))"
      by (simp only: int16_view_take int16_view_drop)
    also have "\<dots> = int16_view (take CHUNK_SIZE_BYTES (drop (k * CHUNK_SIZE_BYTES) buffer))"
      by (simp add: c ac_simps)
    finally have "int16_bytes (take SAMPLES_PER_CHUNK (drop (k * SAMPLES_PER_CHUNK) (int16_view buffer)))
          = take (2 * (length (take CHUNK_SIZE_BYTES (drop (k * CHUNK_SIZE_BYTES) buffer)) div 2))
              (take CHUNK_SIZE_BYTES (drop (k * CHUNK_SIZE_BYTES) buffer))"
      by (simp only: int16_roundtrip)
    moreover have "length (take CHUNK_SIZE_BYTES (drop (k * CHUNK_SIZE_BYTES) buffer)) = CHUNK_SIZE_BYTES"
      using le by simp
    ultimately show ?thesis by (simp add: c)
  qed
  then show ?thesis
    by (simp add: frames_def length_int16_view n)
qed

lemma length_frames: "length (frames n xs) = length xs div n"
  by (simp add: frames_def)

lemma frame_length: "f \<in> set (frames n xs) \<Longrightarrow> length f = n"
proof -
  assume "f \<in> set (frames n xs)"
  then obtain k where k: "k < length xs div n" and f: "f = take n (drop (k * n) xs)"
    by (auto simp: frames_def)
  have "Suc k * n \<le> (length xs div n) * n"
    using k by (intro mult_le_mono1) simp
  also have "\<dots> \<le> length xs" by simp
  finally show ?thesis using f by simp
qed

lemma concat_frames: "concat (frames n xs) = take (n * (length xs div n)) xs"
proof -
  have "concat (map (\<lambda>k. take n (drop (k * n) xs)) [0..<m]) = take (n * m) xs"
    if "n * m \<le> length xs" for m
    using that
  proof (induction m)
    case 0
    then show ?case by simp
  next
    case (Suc m)
    then have "concat (map (\<lambda>k. take n (drop (k * n) xs)) [0..<m]) = take (n * m) xs" by simp
    moreover have "take (n * Suc m) xs = take (n * m) xs @ take n (drop (n * m) xs)"
      by (metis mult_Suc_right add.commute take_add)
    ultimately show ?case
      by (simp add: mult.commute)
  qed
  then show ?thesis by (simp add: frames_def)
qed


lemma count_list_distinct: "distinct xs \<Longrightarrow> x \<in> set xs \<Longrightarrow> count_list xs x = 1"
  by (induction xs) auto

lemma wsCalls_console_error [simp]: "wsCalls (console_error l s) = wsCalls s"
  by (simp add: console_error_def)

lemma readyState_console_error [simp]: "readyState (console_error l s) = readyState s"
  by (simp add: console_error_def)

lemma channelClients_console_error [simp]: "channelClients (console_error l s) = channelClients s"
  by (simp add: console_error_def)

lemma wsCalls_audioOutput:
  "wsCalls (onEvent channelId (AudioOutput buffer) s) w =
     wsCalls s w @
       (if readyState s w = OPEN
        then concat (map (\<lambda>f. replicate (count_list (clients_of s channelId) w) (Send (AudioChunk f)))
                         (frames SAMPLES_PER_CHUNK (int16_view buffer)))
        else [])"
  by (simp only: onEvent_def session_event.case audio_loop_fold frames_samples
        wsCalls_fold_broadcast)

text \<open>
  Claim C2. An upstream \<open>audioOutput\<close> payload of any byte length reaches every attached
  client whose socket is open as exactly \<open>length div 640\<close> frames, in order; the frames are
  the consecutive 640-byte (320-sample) slices of the payload, and the bytes after the last
  whole frame are in no frame. A 2000-byte payload gives three frames and leaves out 80
  bytes.
\<close>

theorem reframer_forwards_whole_frames:
  assumes "map_of (channelClients s) channelId = Some clients"
    and "distinct clients" and "w \<in> set clients" and "readyState s w = OPEN"
  shows "wsCalls (onEvent channelId (AudioOutput buffer) s) w
           = wsCalls s w @ map (\<lambda>f. Send (AudioChunk f)) (frames SAMPLES_PER_CHUNK (int16_view buffer))
       \<and> map int16_bytes (frames SAMPLES_PER_CHUNK (int16_view buffer)) = frames CHUNK_SIZE_BYTES buffer
       \<and> CHUNK_SIZE_BYTES = 640 \<and> SAMPLES_PER_CHUNK = 320
       \<and> length (frames CHUNK_SIZE_BYTES buffer) = length buffer div 640
       \<and> (\<forall>f \<in> set (frames CHUNK_SIZE_BYTES buffer). length f = 640)
       \<and> concat (frames CHUNK_SIZE_BYTES buffer) = take (640 * (length buffer div 640)) buffer
       \<and> (length buffer = 2000 \<longrightarrow>
            length (frames CHUNK_SIZE_BYTES buffer) = 3
          \<and> length buffer - length (concat (frames CHUNK_SIZE_BYTES buffer)) = 80)"
proof -
  have c: "count_list (clients_of s channelId) w = 1"
    using assms by (simp add: clients_of_def count_list_distinct)
  have 1: "wsCalls (onEvent channelId (AudioOutput buffer) s) w
           = wsCalls s w @ map (\<lambda>f. Send (AudioChunk f)) (frames SAMPLES_PER_CHUNK (int16_view buffer))"
    using assms(4) by (simp add: wsCalls_audioOutput c)
  have k: "CHUNK_SIZE_BYTES = 640" by (simp add: CHUNK_SIZE_BYTES_def)
  have 5: "concat (frames CHUNK_SIZE_BYTES buffer) = take (640 * (length buffer div 640)) buffer"
    by (simp add: concat_frames k)
  have 6: "length buffer = 2000 \<longrightarrow>
            length (frames CHUNK_SIZE_BYTES buffer) = 3
          \<and> length buffer - length (concat (frames CHUNK_SIZE_BYTES buffer)) = 80"
  proof
    assume l: "length buffer = 2000"
    have "length (concat (frames CHUNK_SIZE_BYTES buffer)) = 1920"
      by (simp only: 5 length_take l) simp
    then show "length (frames CHUNK_SIZE_BYTES buffer) = 3
          \<and> length buffer - length (concat (frames CHUNK_SIZE_BYTES buffer)) = 80"
      by (simp add: length_frames k l)
  qed
  show ?thesis
    using 1 5 6 frames_bytes[of buffer] frame_length[of _ CHUNK_SIZE_BYTES buffer] 
    by (simp add: length_frames k SAMPLES_PER_CHUNK_def)
qed

theorem reframer_forwards_whole_frames_witness:
  "map_of (channelClients (init_server\<lparr>channelClients := [(''abc'', [7])]\<rparr>)) ''abc'' = Some [7]
   \<and> distinct [7::nat] \<and> (7::nat) \<in> set [7]
   \<and> readyState (init_server\<lparr>channelClients := [(''abc'', [7])]\<rparr>) 7 = OPEN
   \<and> length (replicate 2000 (0::byte)) = 2000
   \<and> length (frames CHUNK_SIZE_BYTES (replicate 2000 (0::byte))) = 3
   \<and> wsCalls (onEvent ''abc'' (AudioOutput (replicate 2000 0))
                (init_server\<lparr>channelClients := [(''abc'', [7])]\<rparr>)) 7
       = map (\<lambda>f. Send (AudioChunk f)) (frames SAMPLES_PER_CHUNK (int16_view (replicate 2000 0)))"
  using reframer_forwards_whole_frames
          [of "init_server\<lparr>channelClients := [(''abc'', [7])]\<rparr>" "''abc''" "[7]" 7 "replicate 2000 0"]
  by (simp add: init_server_def)

text \<open>
  Claim C9. On each of the three delivery paths (named event, \<open>streamComplete\<close>, audio
  frames) the calls a socket receives depend on its own ready state only: nothing is sent to
  a socket that is not \<open>OPEN\<close>, and an open socket of the channel receives the message
  whatever the state of the sockets iterated before it.
\<close>

theorem fanout_only_to_open_sockets:
  "wsCalls (onEvent channelId (Event eventName data) s) w =
     wsCalls s w @
       (if eventName \<in> set forwarded_events \<and> readyState s w = OPEN
        then replicate (count_list (clients_of s channelId) w) (Send (SessionEvent eventName data))
        else [])
   \<and> wsCalls (onEvent channelId StreamCompleteEvent s) w =
     wsCalls s w @
       (if readyState s w = OPEN
        then replicate (count_list (clients_of s channelId) w) (Send StreamComplete) else [])
   \<and> wsCalls (onEvent channelId (AudioOutput buffer) s) w =
     wsCalls s w @
       (if readyState s w = OPEN
        then concat (map (\<lambda>f. replicate (count_list (clients_of s channelId) w) (Send (AudioChunk f)))
                         (frames SAMPLES_PER_CHUNK (int16_view buffer)))
        else [])"
proof -
  have c: "clients_of (console_error l s) channelId = clients_of s channelId" for l
    by (simp add: clients_of_def)
  have "wsCalls (onEvent channelId (Event eventName data) s) w =
     wsCalls s w @
       (if eventName \<in> set forwarded_events \<and> readyState s w = OPEN
        then replicate (count_list (clients_of s channelId) w) (Send (SessionEvent eventName data))
        else [])"
    by (simp add: onEvent_def wsCalls_broadcast c)
  moreover have "wsCalls (onEvent channelId StreamCompleteEvent s) w =
     wsCalls s w @
       (if readyState s w = OPEN
        then replicate (count_list (clients_of s channelId) w) (Send StreamComplete) else [])"
    by (simp add: onEvent_def wsCalls_broadcast)
  ultimately show ?thesis
    using wsCalls_audioOutput[of channelId buffer s w] by simp
qed

subsection \<open>State projections of the basic operations\<close>


lemma call_fields [simp]:
  "channelStreams (call c s) = channelStreams s"
  "channelClients (call c s) = channelClients s"
  "clientChannels (call c s) = clientChannels s"
  "awaiting (call c s) = awaiting s"
  "readyState (call c s) = readyState s"
  "wsCalls (call c s) = wsCalls s"
  "upstream (call c s) = upstream s @ [c]"
  "consoleErrors (call c s) = consoleErrors s"
  "sessionsCreated (call c s) = sessionsCreated s"
  "activeSessions (call c s) = activeSessions s"
  "closeBehaviour (call c s) = closeBehaviour s"
  "browserOn (call c s) = browserOn s"
  "vonageOn (call c s) = vonageOn s"
  "clock (call c s) = clock s"
  by (simp_all add: call_def)

lemma calls_made_fields [simp]:
  "channelStreams (calls_made cs s) = channelStreams s"
  "channelClients (calls_made cs s) = channelClients s"
  "clientChannels (calls_made cs s) = clientChannels s"
  "awaiting (calls_made cs s) = awaiting s"
  "readyState (calls_made cs s) = readyState s"
  "wsCalls (calls_made cs s) = wsCalls s"
  "upstream (calls_made cs s) = upstream s @ cs"
  "consoleErrors (calls_made cs s) = consoleErrors s"
  "activeSessions (calls_made cs s) = activeSessions s"
  "closeBehaviour (calls_made cs s) = closeBehaviour s"
  by (simp_all add: calls_made_def)

lemma console_error_fields [simp]:
  "channelStreams (console_error l s) = channelStreams s"
  "clientChannels (console_error l s) = clientChannels s"
  "awaiting (console_error l s) = awaiting s"
  "upstream (console_error l s) = upstream s"
  "consoleErrors (console_error l s) = consoleErrors s @ [l]"
  "activeSessions (console_error l s) = activeSessions s"
  "closeBehaviour (console_error l s) = closeBehaviour s"
  by (simp_all add: console_error_def)

lemma ws_send_fields [simp]:
  "channelStreams (ws_send w m s) = channelStreams s"
  "channelClients (ws_send w m s) = channelClients s"
  "clientChannels (ws_send w m s) = clientChannels s"
  "awaiting (ws_send w m s) = awaiting s"
  "wsCalls (ws_send w m s) = (wsCalls s)(w := wsCalls s w @ [Send m])"
  "upstream (ws_send w m s) = upstream s"
  "consoleErrors (ws_send w m s) = consoleErrors s"
  "sessionsCreated (ws_send w m s) = sessionsCreated s"
  "activeSessions (ws_send w m s) = activeSessions s"
  "closeBehaviour (ws_send w m s) = closeBehaviour s"
  by (simp_all add: ws_send_def)

lemma ws_close_fields [simp]:
  "channelStreams (ws_close w s) = channelStreams s"
  "channelClients (ws_close w s) = channelClients s"
  "clientChannels (ws_close w s) = clientChannels s"
  "awaiting (ws_close w s) = awaiting s"
  "readyState (ws_close w s) = readyState s"
  "wsCalls (ws_close w s) = (wsCalls s)(w := wsCalls s w @ [Close])"
  "upstream (ws_close w s) = upstream s"
  "consoleErrors (ws_close w s) = consoleErrors s"
  "sessionsCreated (ws_close w s) = sessionsCreated s"
  "activeSessions (ws_close w s) = activeSessions s"
  "closeBehaviour (ws_close w s) = closeBehaviour s"
  by (simp_all add: ws_close_def)

lemma closeSession_fields [simp]:
  "channelStreams (closeSession i s) = channelStreams s"
  "channelClients (closeSession i s) = channelClients s"
  "clientChannels (closeSession i s) = clientChannels s"
  "awaiting (closeSession i s) = awaiting s"
  "readyState (closeSession i s) = readyState s"
  "wsCalls (closeSession i s) = wsCalls s"
  "upstream (closeSession i s) = upstream s @ [CloseSession i]"
  "consoleErrors (closeSession i s) = consoleErrors s"
  "closeBehaviour (closeSession i s) = closeBehaviour s"
  by (simp_all add: closeSession_def Let_def)

lemma force_close_fields [simp]:
  "channelStreams (force_close i s) = channelStreams s"
  "channelClients (force_close i s) = channelClients s"
  "clientChannels (force_close i s) = clientChannels s"
  "awaiting (force_close i s) = awaiting s"
  "readyState (force_close i s) = readyState s"
  "wsCalls (force_close i s) = wsCalls s"
  "upstream (force_close i s) = upstream s @ [CloseSession i]"
  "closeBehaviour (force_close i s) = closeBehaviour s"
  by (simp_all add: force_close_def Let_def)

lemma teardown_fields [simp]:
  "channelStreams (teardown outs i session s) = channelStreams s"
  "channelClients (teardown outs i session s) = channelClients s"
  "clientChannels (teardown outs i session s) = clientChannels s"
  "awaiting (teardown outs i session s) = awaiting s"
  "readyState (teardown outs i session s) = readyState s"
  "wsCalls (teardown outs i session s) = wsCalls s"
  by (simp_all add: teardown_def Let_def split: prod.splits race.splits)

text \<open>
  Claim C10. A message on a socket that has no channel in \<open>clientChannels\<close>, or whose
  channel has no session in \<open>channelStreams\<close>, changes nothing but the socket's own
  log, which gains one structured error event: no upstream call is made, no adapter runs,
  and the three registries are as before.
\<close>

theorem handleMessage_without_channel_or_session:
  assumes "clientChannels s ws = None
         \<or> (\<exists>channelId. clientChannels s ws = Some channelId
                          \<and> map_of (channelStreams s) channelId = None)"
  shows "handleMessage rejects ws msg s =
           s\<lparr>wsCalls := (wsCalls s)(ws := wsCalls s ws @
               [Send (if clientChannels s ws = None \<or> clientChannels s ws = Some []
                      then ErrorEvent ''Channel not found'' ''No active channel for this connection''
                      else ErrorEvent ''Session not found'' ''No active session for this channel'')])\<rparr>"
  using assms by (auto simp: handleMessage_def sendError_def ws_send_def)

theorem handleMessage_without_channel_or_session_witness:
  "clientChannels init_server 1 = None
   \<and> handleMessage (\<lambda>c. False) 1 \<lparr>raw = [], json_audio = None, json_type = Some ''promptStart'', json_data = None\<rparr> init_server
       = init_server\<lparr>wsCalls := (wsCalls init_server)(1 :=
            [Send (ErrorEvent ''Channel not found'' ''No active channel for this connection'')])\<rparr>
   \<and> clientChannels (init_server\<lparr>clientChannels := [2 \<mapsto> ''abc'']\<rparr>) 2 = Some ''abc''
   \<and> map_of (channelStreams (init_server\<lparr>clientChannels := [2 \<mapsto> ''abc'']\<rparr>)) ''abc'' = None
   \<and> wsCalls (handleMessage (\<lambda>c. False) 2 \<lparr>raw = [], json_audio = None, json_type = Some ''promptStart'', json_data = None\<rparr>
         (init_server\<lparr>clientChannels := [2 \<mapsto> ''abc'']\<rparr>)) 2
       = [Send (ErrorEvent ''Session not found'' ''No active session for this channel'')]
   \<and> upstream (handleMessage (\<lambda>c. False) 2 \<lparr>raw = [], json_audio = None, json_type = Some ''promptStart'', json_data = None\<rparr>
         (init_server\<lparr>clientChannels := [2 \<mapsto> ''abc'']\<rparr>)) = []"
  using handleMessage_without_channel_or_session
     [of init_server 1 "\<lambda>c. False" "\<lparr>raw = [], json_audio = None, json_type = Some ''promptStart'', json_data = None\<rparr>"]
    handleMessage_without_channel_or_session
     [of "init_server\<lparr>clientChannels := [2 \<mapsto> ''abc'']\<rparr>" 2 "\<lambda>c. False"
         "\<lparr>raw = [], json_audio = None, json_type = Some ''promptStart'', json_data = None\<rparr>"]
  by (simp add: init_server_def)

lemma upstream_teardown:
  "\<exists>new. upstream (teardown outs channelId session s) = upstream s @ EndAudioContent session # new
       \<and> (CloseSession channelId \<in> set new \<longleftrightarrow> \<not> graceful_ok outs)
       \<and> (graceful_ok outs \<longrightarrow> new = [EndPrompt session, SessionClose session])"
proof -
  obtain o1 o2 o3 where outs: "outs = (o1, o2, o3)" by (cases outs) 
  show ?thesis
    unfolding outs
    by (cases o1; cases o2; cases o3)
       (auto simp: teardown_def graceful_ok_def promise_race_def CLEANUP_TIMEOUT_MS_def Let_def)
qed


lemma removeAll_only: "set xs \<subseteq> {x} \<Longrightarrow> removeAll x xs = []"
  by (induction xs) auto

text \<open>
  Claim C6. When the last client of a channel disconnects, the channel is gone from both
  registries and the socket from \<open>clientChannels\<close> in every case. If the session is active
  the graceful sequence is started (\<open>endAudioContent\<close> is called); all three calls resolving
  within 3000 ms give exactly end audio content, end prompt, close; otherwise (a rejection,
  or the timer first) \<open>closeSession\<close> is called for the channel.
\<close>

theorem last_client_teardown:
  assumes "clientChannels s ws = Some channelId" and "channelId \<noteq> []"
    and "map_of (channelClients s) channelId = Some clients" and "set clients \<subseteq> {ws}"
  shows "map_of (channelStreams (handleClose outs ws s)) channelId = None
       \<and> map_of (channelClients (handleClose outs ws s)) channelId = None
       \<and> clientChannels (handleClose outs ws s) ws = None
       \<and> (\<forall>session. map_of (channelStreams s) channelId = Some session \<and> isSessionActive s channelId \<longrightarrow>
            (\<exists>new. upstream (handleClose outs ws s) = upstream s @ EndAudioContent session # new
                 \<and> (CloseSession channelId \<in> set new \<longleftrightarrow> \<not> graceful_ok outs)
                 \<and> (graceful_ok outs \<longrightarrow> new = [EndPrompt session, SessionClose session])))
       \<and> (map_of (channelStreams s) channelId = None \<or> \<not> isSessionActive s channelId \<longrightarrow>
            upstream (handleClose outs ws s) = upstream s)
       \<and> CLEANUP_TIMEOUT_MS = 3000"
proof -
  have e: "set_delete ws clients = []"
    using assms(4) by (simp add: set_delete_def removeAll_only)
  define s1 where "s1 = s\<lparr>channelClients := AList.update channelId [] (channelClients s)\<rparr>"
  define s2 where "s2 = (case map_of (channelStreams s1) channelId of
                                    None \<Rightarrow> s1
                                  | Some session \<Rightarrow>
                                      if isSessionActive s1 channelId
                                      then teardown outs channelId session s1 else s1)"
  have h: "handleClose outs ws s =
      s2\<lparr>channelStreams := AList.delete channelId (channelStreams s2),
         channelClients := AList.delete channelId (channelClients s2),
         clientChannels := (clientChannels s2)(ws := None)\<rparr>"
    using assms(1-3) unfolding s2_def s1_def by (simp add: handleClose_def e Let_def)
  have a: "isSessionActive s1 channelId = isSessionActive s channelId"
    by (simp add: s1_def isSessionActive_def)
  have u1: "upstream s1 = upstream s" "channelStreams s1 = channelStreams s"
    by (simp_all add: s1_def)
  have 1: "map_of (channelStreams (handleClose outs ws s)) channelId = None"
    by (simp add: h delete_conv)
  have 2: "map_of (channelClients (handleClose outs ws s)) channelId = None"
    by (simp add: h delete_conv)
  have 3: "clientChannels (handleClose outs ws s) ws = None"
    by (simp add: h)
  have 4: "\<exists>new. upstream (handleClose outs ws s) = upstream s @ EndAudioContent session # new
                 \<and> (CloseSession channelId \<in> set new \<longleftrightarrow> \<not> graceful_ok outs)
                 \<and> (graceful_ok outs \<longrightarrow> new = [EndPrompt session, SessionClose session])"
    if "map_of (channelStreams s) channelId = Some session" "isSessionActive s channelId" for session
  proof -
    have "s2 = teardown outs channelId session s1"
      using that by (simp add: s2_def a u1)
    then have "upstream (handleClose outs ws s) = upstream (teardown outs channelId session s1)"
      by (simp add: h)
    then show ?thesis
      using upstream_teardown[of outs channelId session s1] by (simp add: u1)
  qed
  have 5: "upstream (handleClose outs ws s) = upstream s"
    if "map_of (channelStreams s) channelId = None \<or> \<not> isSessionActive s channelId"
  proof -
    have "s2 = s1"
      using that by (auto simp: s2_def a u1 split: option.splits)
    then show ?thesis by (simp add: h u1)
  qed
  show ?thesis
    using 1 2 3 4 5 by (simp add: CLEANUP_TIMEOUT_MS_def)
qed

theorem last_client_teardown_witness:
  "clientChannels (init_server\<lparr>channelStreams := [(''xyz'', Session ''xyz'' 0)],
        channelClients := [(''xyz'', [1])], clientChannels := [1 \<mapsto> ''xyz''],
        activeSessions := [(''xyz'', 0)]\<rparr>) 1 = Some ''xyz''
   \<and> ''xyz'' \<noteq> []
   \<and> map_of (channelClients (init_server\<lparr>channelStreams := [(''xyz'', Session ''xyz'' 0)],
        channelClients := [(''xyz'', [1])], clientChannels := [1 \<mapsto> ''xyz''],
        activeSessions := [(''xyz'', 0)]\<rparr>)) ''xyz'' = Some [1]
   \<and> set [1::nat] \<subseteq> {1}
   \<and> \<not> graceful_ok (Resolves 10, Hangs, Resolves 10)
   \<and> map_of (channelClients (handleClose (Resolves 10, Hangs, Resolves 10) 1
        (init_server\<lparr>channelStreams := [(''xyz'', Session ''xyz'' 0)],
        channelClients := [(''xyz'', [1])], clientChannels := [1 \<mapsto> ''xyz''],
        activeSessions := [(''xyz'', 0)]\<rparr>))) ''xyz'' = None
   \<and> (\<exists>new. upstream (handleClose (Resolves 10, Hangs, Resolves 10) 1
        (init_server\<lparr>channelStreams := [(''xyz'', Session ''xyz'' 0)],
        channelClients := [(''xyz'', [1])], clientChannels := [1 \<mapsto> ''xyz''],
        activeSessions := [(''xyz'', 0)]\<rparr>)) = EndAudioContent (Session ''xyz'' 0) # new
        \<and> CloseSession ''xyz'' \<in> set new)"
  using last_client_teardown [of "init_server\<lparr>channelStreams := [(''xyz'', Session ''xyz'' 0)],
        channelClients := [(''xyz'', [1])], clientChannels := [1 \<mapsto> ''xyz''],
        activeSessions := [(''xyz'', 0)]\<rparr>" 1 "''xyz''" "[1]" "(Resolves 10, Hangs, Resolves 10)"]
  by (simp add: init_server_def isSessionActive_def graceful_ok_def)

subsection \<open>The reaper\<close>


lemma reaper_loop_fields [simp]:
  "channelStreams (reaper_loop now ids s) = channelStreams s"
  "channelClients (reaper_loop now ids s) = channelClients s"
  "clientChannels (reaper_loop now ids s) = clientChannels s"
  "wsCalls (reaper_loop now ids s) = wsCalls s"
  "closeBehaviour (reaper_loop now ids s) = closeBehaviour s"
  by (induction ids arbitrary: s) (simp_all add: Let_def)


lemma lastActivity_console_error [simp]:
  "getLastActivityTime (console_error l s) i = getLastActivityTime s i"
  by (simp add: getLastActivityTime_def)







subsection \<open>Shutdown\<close>


lemma close_open_clients_fields [simp]:
  "channelStreams (close_open_clients cs s) = channelStreams s"
  "channelClients (close_open_clients cs s) = channelClients s"
  "readyState (close_open_clients cs s) = readyState s"
  "upstream (close_open_clients cs s) = upstream s"
  "closeBehaviour (close_open_clients cs s) = closeBehaviour s"
  by (induction cs arbitrary: s) simp_all


lemma clients_of_closeSession [simp]: "clients_of (closeSession i s) c = clients_of s c"
  by (simp add: clients_of_def)

lemma clients_of_close_open_clients [simp]: "clients_of (close_open_clients cs s) c = clients_of s c"
  by (simp add: clients_of_def)





subsection \<open>The tool registry\<close>








subsection \<open>The injection helper\<close>












subsection \<open>Joining\<close>

lemma init_create:
  "map_of (channelStreams s) c = None \<Longrightarrow>
   initializeOrJoinChannel w c s =
     s\<lparr>upstream := upstream s @ [CreateStreamSession c, InitiateSession c w,
                                 SetupPromptStart (Session c (sessionsCreated s))],
       sessionsCreated := Suc (sessionsCreated s),
       activeSessions := AList.update c (clock s) (activeSessions s),
       channelStreams := AList.update c (Session c (sessionsCreated s)) (channelStreams s),
       channelClients := AList.update c [] (channelClients s),
       awaiting := (awaiting s)(w \<mapsto> (c, Session c (sessionsCreated s), PromptStart))\<rparr>"
  by (simp add: initializeOrJoinChannel_def createStreamSession_def call_def Let_def)

lemma init_join:
  "map_of (channelStreams s) c = Some session \<Longrightarrow>
   initializeOrJoinChannel w c s = attach w c False s"
  by (simp add: initializeOrJoinChannel_def)

lemma join_failed_fields [simp]:
  "channelStreams (join_failed w err s) = channelStreams s"
  "channelClients (join_failed w err s) = channelClients s"
  "clientChannels (join_failed w err s) = clientChannels s"
  "awaiting (join_failed w err s) = awaiting s"
  "upstream (join_failed w err s) = upstream s"
  "wsCalls (join_failed w err s) w' =
     wsCalls s w' @ (if w' = w then [Send (ErrorEvent ''Failed to initialize or join channel'' err), Close] else [])"
  by (simp_all add: join_failed_def sendError_def)

lemma attach_fields [simp]:
  "channelStreams (attach w c b s) = channelStreams s"
  "awaiting (attach w c b s) = awaiting s"
  "upstream (attach w c b s) = upstream s"
  by (simp_all add: attach_def split: option.splits)

lemma attach_clients:
  "map_of (channelClients (attach w c b s)) c' =
     (if c' = c then map_option (set_add w) (map_of (channelClients s) c)
      else map_of (channelClients s) c')"
  by (simp add: attach_def update_conv split: option.splits)

lemma attach_wsCalls:
  "wsCalls (attach w c b s) w' =
     wsCalls s w' @
       (if w' = w
        then (case map_of (channelClients s) c of
                None \<Rightarrow> [Send (ErrorEvent ''Failed to initialize or join channel''
                                 ''TypeError: Cannot read properties of undefined''), Close]
              | Some clients \<Rightarrow> [sessionReady c b])
        else [])"
  by (simp add: attach_def sessionReady_def split: option.splits)

lemma set_set_add [simp]: "set (set_add x xs) = insert x (set xs)"
  by (auto simp: set_add_def)





lemma run_Cons [simp]: "run (e # evs) s = run evs (step e s)"
  by (simp add: run_def)

lemma run_Nil [simp]: "run [] s = s"
  by (simp add: run_def)














text \<open>
  Claim C3 at a concrete schedule. Socket 2 creates channel "abc" and its first handshake
  step is rejected: it receives the structured error and is closed, and its close handler
  finds no channel to clean up. The registry entry made before the handshake stays, so
  socket 3 joining "abc" afterwards finds the session, is attached and is told
  \<open>sessionReady\<close>.
\<close>

theorem failed_handshake_leaves_channel_joinable:
  "wsCalls (run [Connect 2 ''abc'', Reject 2 ''rejected'', Disconnect 2 (Hangs, Hangs, Hangs),
                 Connect 3 ''abc''] init_server) 2
     = [Send (ErrorEvent ''Failed to initialize or join channel'' ''rejected''), Close]
   \<and> map_of (channelStreams (run [Connect 2 ''abc'', Reject 2 ''rejected'',
                 Disconnect 2 (Hangs, Hangs, Hangs), Connect 3 ''abc''] init_server)) ''abc''
     = Some (Session ''abc'' 0)
   \<and> clients_of (run [Connect 2 ''abc'', Reject 2 ''rejected'', Disconnect 2 (Hangs, Hangs, Hangs),
                 Connect 3 ''abc''] init_server) ''abc'' = [3]
   \<and> wsCalls (run [Connect 2 ''abc'', Reject 2 ''rejected'', Disconnect 2 (Hangs, Hangs, Hangs),
                 Connect 3 ''abc''] init_server) 3
     = [sessionReady ''abc'' False]"
proof -
  define s1 where "s1 = step (Connect 2 ''abc'') init_server"
  define s2 where "s2 = step (Reject 2 ''rejected'') s1"
  define s3 where "s3 = step (Disconnect 2 (Hangs, Hangs, Hangs)) s2"
  define s4 where "s4 = step (Connect 3 ''abc'') s3"
  have r: "run [Connect 2 ''abc'', Reject 2 ''rejected'', Disconnect 2 (Hangs, Hangs, Hangs),
                 Connect 3 ''abc''] init_server = s4"
    by (simp add: s1_def s2_def s3_def s4_def)
  have i: "map_of (channelStreams init_server) ''abc'' = None" "sessionsCreated init_server = 0"
    "wsCalls init_server = (\<lambda>w. [])" "clientChannels init_server = Map.empty"
    "awaiting init_server = Map.empty" "channelStreams init_server = []" "channelClients init_server = []"
    by (simp_all add: init_server_def)
  have 1: "channelStreams s1 = [(''abc'', Session ''abc'' 0)]" "channelClients s1 = [(''abc'', [])]"
    "awaiting s1 2 = Some (''abc'', Session ''abc'' 0, PromptStart)" "wsCalls s1 = (\<lambda>w. [])"
    "clientChannels s1 = Map.empty"
    by (simp_all add: s1_def init_create[OF i(1)] i)
  have 2: "channelStreams s2 = [(''abc'', Session ''abc'' 0)]" "channelClients s2 = [(''abc'', [])]"
    "wsCalls s2 2 = [Send (ErrorEvent ''Failed to initialize or join channel'' ''rejected''), Close]"
    "wsCalls s2 3 = []" "clientChannels s2 = Map.empty"
    by (simp_all add: s2_def handshake_rejected_def 1)
  have 3: "s3 = s2"
    by (simp add: s3_def handleClose_def 2)
  have m: "map_of (channelStreams s2) ''abc'' = Some (Session ''abc'' 0)"
    by (simp add: 2)
  have 4: "channelStreams s4 = [(''abc'', Session ''abc'' 0)]" "clients_of s4 ''abc'' = [3]"
    "wsCalls s4 2 = [Send (ErrorEvent ''Failed to initialize or join channel'' ''rejected''), Close]"
    "wsCalls s4 3 = [sessionReady ''abc'' False]"
    by (simp_all add: s4_def init_join[OF m] attach_wsCalls clients_of_def attach_clients 3 2
          set_add_def)
  show ?thesis
    unfolding r by (simp add: 4)
qed

end
